theory Spec2Isabelle
  imports Main "HOL-Library.Word"
begin

section \<open>Data model\<close>

text \<open>
  The two programs of the repository (\<open>spend.go\<close> and \<open>keypair.go\<close>) are thin drivers
  over the btcsuite libraries and the Go standard library.  Byte slices are lists of
  8-bit words, Go's \<open>error\<close> values are carried as their message, \<open>int64\<close> and
  \<open>uint32\<close> are words (so arithmetic wraps as in Go), and a Go pointer that may be
  \<open>nil\<close> is an \<open>option\<close>.
\<close>

type_synonym byte = "8 word"
type_synonym bytes = "byte list"
type_synonym go_error = string
type_synonym uint32 = "32 word"
type_synonym int64 = "64 word"
type_synonym ShaHash = bytes

text \<open>
  How a run of the program can stop early: \<open>os.Exit(0)\<close> after the usage text, one of
  the \<open>log.Fatal\<close> calls (named after the place that raises it), or a Go runtime panic
  (slice index out of range, nil pointer dereference).
\<close>

datatype abort =
    UsageExit
  | Fatal go_error
  | LookupFailed go_error
  | ReadFailed go_error
  | BadResponse
  | IndexOutOfRange
  | NilPointer

text \<open>The struct \<open>requiredArgs\<close> of \<open>spend.go\<close>.\<close>

record ('addr, 'priv) requiredArgs =
  txid :: "ShaHash option"
  vout :: uint32
  toAddress :: 'addr
  privKey :: 'priv

text \<open>
  The JSON structs \<open>BlockChainInfoTxOut\<close> and \<open>blockChainInfoTx\<close> of \<open>spend.go\<close>.
  \<open>Value\<close> is a Go \<open>int\<close> whose only use is its conversion to \<open>int64\<close>; it is
  an \<open>int64\<close> here.
\<close>

record BlockChainInfoTxOut =
  Value :: int64
  ScriptHex :: string

record blockChainInfoTx =
  Ver :: int
  Hash :: string
  Outputs :: "BlockChainInfoTxOut list"

text \<open>
  Modelled from the spec: the wire types \<open>OutPoint\<close>, \<open>TxIn\<close>, \<open>TxOut\<close> and
  \<open>MsgTx\<close> are declared in btcwire, not in the repository; their fields are those of
  section 3 of the specification, under the names the source uses for them
  (\<open>tx.TxIn[0].SignatureScript\<close>, \<open>oldTxOut.Value\<close>, \<open>oldTxOut.PkScript\<close>).
  Three field names are changed to keep them apart from the JSON structs and from the
  record types: \<open>OutHash\<close> is \<open>OutPoint.Hash\<close>, \<open>OutValue\<close> is \<open>TxOut.Value\<close>, and
  \<open>TxIns\<close>, \<open>TxOuts\<close> are \<open>MsgTx.TxIn\<close>, \<open>MsgTx.TxOut\<close>.
\<close>

record OutPoint =
  OutHash :: ShaHash
  Index :: uint32

record TxIn =
  PreviousOutPoint :: OutPoint
  SignatureScript :: bytes
  Sequence :: uint32

record TxOut =
  OutValue :: int64
  PkScript :: bytes

record MsgTx =
  Version :: uint32
  TxIns :: "TxIn list"
  TxOuts :: "TxOut list"
  LockTime :: uint32

section \<open>The libraries as a parameter\<close>

text \<open>
  Everything the programs call outside the repository is a field of the record \<open>lib\<close>;
  the functions of the repository take it as their first argument.  A Go function
  returning \<open>(value, error)\<close> whose error the caller tests is a sum (\<open>Inl\<close> the error);
  \<open>NewShaHashFromStr\<close> keeps Go's pair of a pointer and an error, because one of its
  callers drops the error; \<open>PrivKeyFromBytes\<close> returns a pair whose second component
  the caller drops.
\<close>

record ('addr, 'priv, 'aux) lib =
  DecodeString :: "string \<Rightarrow> go_error + bytes"
  PrivKeyFromBytes :: "bytes \<Rightarrow> 'priv \<times> 'aux"
  DecodeAddress :: "string \<Rightarrow> go_error + 'addr"
  NewShaHashFromStr :: "string \<Rightarrow> ShaHash option \<times> go_error option"
  ShaHashString :: "ShaHash \<Rightarrow> string"
  httpGet :: "string \<Rightarrow> go_error + (go_error + bytes)"
  jsonUnmarshal :: "bytes \<Rightarrow> go_error + blockChainInfoTx"
  TxVersion :: uint32
  MaxTxInSequenceNum :: uint32
  PayToAddrScript :: "'addr \<Rightarrow> go_error + bytes"
  SigHashAll :: byte
  SignatureScriptLib :: "MsgTx \<Rightarrow> nat \<Rightarrow> bytes \<Rightarrow> byte \<Rightarrow> 'priv \<Rightarrow> bool \<Rightarrow> go_error + bytes"
  Serialize :: "MsgTx \<Rightarrow> bytes"
  EncodeToString :: "bytes \<Rightarrow> string"

section \<open>spend.go\<close>

text \<open>
  \<open>getArgs\<close> (lines 51-84).  The four flags are the arguments \<open>a\<close>, \<open>k\<close>, \<open>t\<close> and
  \<open>v\<close>; \<open>v\<close> is a Go \<open>int\<close>, and \<open>uint32(*v)\<close> keeps its low 32 bits.
\<close>

definition getArgs ::
  "('addr, 'priv, 'aux) lib \<Rightarrow> string \<Rightarrow> string \<Rightarrow> string \<Rightarrow> int
     \<Rightarrow> abort + ('addr, 'priv) requiredArgs" where
  "getArgs L a k t v =
     (if a = [] \<or> k = [] \<or> t = [] \<or> v = - 1 then Inl UsageExit
      else case DecodeString L k of
        Inl err \<Rightarrow> Inl (Fatal err)
      | Inr pkBytes \<Rightarrow>
          (case PrivKeyFromBytes L pkBytes of (privKey', _) \<Rightarrow>
            (case DecodeAddress L a of
               Inl err \<Rightarrow> Inl (Fatal err)
             | Inr addr \<Rightarrow>
                 (case NewShaHashFromStr L t of (txid', err) \<Rightarrow>
                    Inr \<lparr>txid = txid', vout = word_of_int v,
                         toAddress = addr, privKey = privKey'\<rparr>))))"

text \<open>
  \<open>lookupTxid\<close> (lines 99-124).  \<open>hash.String()\<close> dereferences the pointer, so a
  \<open>nil\<close> hash panics.  The two \<open>Printf\<close> calls only print.
\<close>

definition lookupTxid :: "('addr, 'priv, 'aux) lib \<Rightarrow> ShaHash option \<Rightarrow> abort + blockChainInfoTx" where
  "lookupTxid L hash =
     (case hash of
        None \<Rightarrow> Inl NilPointer
      | Some h \<Rightarrow>
          (case httpGet L (''https://blockchain.info/rawtx/'' @ ShaHashString L h) of
             Inl err \<Rightarrow> Inl (LookupFailed err)
           | Inr body \<Rightarrow>
               (case body of
                  Inl err \<Rightarrow> Inl (ReadFailed err)
                | Inr b \<Rightarrow>
                    (case jsonUnmarshal L b of
                       Inl err \<Rightarrow> Inl (Fatal err)
                     | Inr txinfo \<Rightarrow>
                         if Ver txinfo \<noteq> 1 then Inl BadResponse else Inr txinfo))))"

text \<open>
  Modelled from the spec: \<open>btcwire.NewOutPoint\<close> is not in the repository.  Section 3:
  an outpoint is a transaction id hash and an output index.
\<close>

definition NewOutPoint :: "ShaHash \<Rightarrow> uint32 \<Rightarrow> OutPoint" where
  "NewOutPoint hash index = \<lparr>OutHash = hash, Index = index\<rparr>"

text \<open>
  Modelled from the spec: \<open>btcwire.NewTxOut\<close> is not in the repository.  Section 3: an
  output is a value and a locking script.
\<close>

definition NewTxOut :: "int64 \<Rightarrow> bytes \<Rightarrow> TxOut" where
  "NewTxOut val pkScript = \<lparr>OutValue = val, PkScript = pkScript\<rparr>"

text \<open>
  Modelled from the spec: \<open>btcwire.NewTxIn\<close> is not in the repository.  Section 3: an
  input is an outpoint, an unlocking script and a sequence number, here the default
  sequence number of the library.
\<close>

definition NewTxIn :: "('addr, 'priv, 'aux) lib \<Rightarrow> OutPoint \<Rightarrow> bytes \<Rightarrow> TxIn" where
  "NewTxIn L prevOut signatureScript =
     \<lparr>PreviousOutPoint = prevOut, SignatureScript = signatureScript,
      Sequence = MaxTxInSequenceNum L\<rparr>"

text \<open>
  Modelled from the spec: \<open>btcwire.NewMsgTx\<close> is not in the repository.  Section 3: a
  transaction is a version, inputs, outputs and a lock time; a new one has the version
  of the library, no inputs, no outputs and lock time zero.
\<close>

definition NewMsgTx :: "('addr, 'priv, 'aux) lib \<Rightarrow> MsgTx" where
  "NewMsgTx L = \<lparr>Version = TxVersion L, TxIns = [], TxOuts = [], LockTime = 0\<rparr>"

text \<open>
  Modelled from the spec: \<open>MsgTx.AddTxIn\<close> is not in the repository.  Section 3: the
  inputs are an ordered sequence; the new input goes to its end.
\<close>

definition AddTxIn :: "MsgTx \<Rightarrow> TxIn \<Rightarrow> MsgTx" where
  "AddTxIn tx ti = tx\<lparr>TxIns := TxIns tx @ [ti]\<rparr>"

text \<open>
  Modelled from the spec: \<open>MsgTx.AddTxOut\<close> is not in the repository.  Section 3: the
  outputs are an ordered sequence; the new output goes to its end.
\<close>

definition AddTxOut :: "MsgTx \<Rightarrow> TxOut \<Rightarrow> MsgTx" where
  "AddTxOut tx to = tx\<lparr>TxOuts := TxOuts tx @ [to]\<rparr>"

text \<open>
  \<open>getFundingParams\<close> (lines 129-155).  The slice is indexed first, and Go panics
  when the index is not below the length; then the hash string of the reply is parsed
  (a \<open>log.Fatal\<close> on error), then the script hex.  \<open>NewOutPoint\<close> copies \<open>*hash\<close>.
\<close>

definition getFundingParams ::
  "('addr, 'priv, 'aux) lib \<Rightarrow> blockChainInfoTx \<Rightarrow> uint32 \<Rightarrow> abort + (TxOut \<times> OutPoint)" where
  "getFundingParams L rawtx vout' =
     (if unat vout' < length (Outputs rawtx) then
        (let blkChnTxOut = Outputs rawtx ! unat vout' in
         case NewShaHashFromStr L (Hash rawtx) of
           (_, Some err) \<Rightarrow> Inl (Fatal err)
         | (None, None) \<Rightarrow> Inl NilPointer
         | (Some hash, None) \<Rightarrow>
             (let amnt = Value blkChnTxOut;
                  outpoint = NewOutPoint hash vout'
              in case DecodeString L (ScriptHex blkChnTxOut) of
                   Inl err \<Rightarrow> Inl (Fatal err)
                 | Inr subscript \<Rightarrow> Inr (NewTxOut amnt subscript, outpoint)))
      else Inl IndexOutOfRange)"

text \<open>\<open>createTxIn\<close> (lines 188-193): the signature script is the empty slice.\<close>

definition createTxIn :: "('addr, 'priv, 'aux) lib \<Rightarrow> OutPoint \<Rightarrow> TxIn" where
  "createTxIn L outpoint = NewTxIn L outpoint []"

text \<open>\<open>createTxOut\<close> (lines 199-209): \<open>inCoin - 10000\<close> is \<open>int64\<close> arithmetic.\<close>

definition createTxOut :: "('addr, 'priv, 'aux) lib \<Rightarrow> int64 \<Rightarrow> 'addr \<Rightarrow> abort + TxOut" where
  "createTxOut L inCoin addr =
     (let outCoin = inCoin - 10000
      in case PayToAddrScript L addr of
           Inl err \<Rightarrow> Inl (Fatal err)
         | Inr script \<Rightarrow> Inr (NewTxOut outCoin script))"

text \<open>\<open>generateSig\<close> (lines 214-230): input index 0, \<open>SigHashAll\<close>, compressed key.\<close>

definition generateSig ::
  "('addr, 'priv, 'aux) lib \<Rightarrow> MsgTx \<Rightarrow> 'priv \<Rightarrow> bytes \<Rightarrow> abort + bytes" where
  "generateSig L tx privkey scriptPubKey =
     (case SignatureScriptLib L tx 0 scriptPubKey (SigHashAll L) privkey True of
        Inl err \<Rightarrow> Inl (Fatal err)
      | Inr scriptSig \<Rightarrow> Inr scriptSig)"

text \<open>\<open>dumpHex\<close> (lines 236-241): the hex string that is printed.\<close>

definition dumpHex :: "('addr, 'priv, 'aux) lib \<Rightarrow> MsgTx \<Rightarrow> string" where
  "dumpHex L tx = EncodeToString L (Serialize L tx)"

text \<open>
  \<open>main\<close> of \<open>spend.go\<close> (lines 157-184), in three parts: \<open>buildTx\<close> is lines 168-176
  (the transaction before signing), \<open>signTx\<close> is lines 179-180 (the signature is
  generated over that transaction and then stored in \<open>tx.TxIn[0]\<close>), and \<open>spendTx\<close> is
  the whole run up to the signed transaction, which \<open>spendMain\<close> prints.
\<close>

definition buildTx :: "('addr, 'priv, 'aux) lib \<Rightarrow> OutPoint \<Rightarrow> int64 \<Rightarrow> 'addr \<Rightarrow> abort + MsgTx" where
  "buildTx L outpoint inCoin addr =
     (let tx = NewMsgTx L;
          txin = createTxIn L outpoint;
          tx = AddTxIn tx txin
      in case createTxOut L inCoin addr of
           Inl e \<Rightarrow> Inl e
         | Inr txout \<Rightarrow> Inr (AddTxOut tx txout))"

definition signTx :: "('addr, 'priv, 'aux) lib \<Rightarrow> MsgTx \<Rightarrow> 'priv \<Rightarrow> bytes \<Rightarrow> abort + MsgTx" where
  "signTx L tx privkey scriptPubKey =
     (case generateSig L tx privkey scriptPubKey of
        Inl e \<Rightarrow> Inl e
      | Inr sig \<Rightarrow>
          (case TxIns tx of
             [] \<Rightarrow> Inl IndexOutOfRange
           | ti # rest \<Rightarrow> Inr (tx\<lparr>TxIns := ti\<lparr>SignatureScript := sig\<rparr> # rest\<rparr>)))"

definition spendTx ::
  "('addr, 'priv, 'aux) lib \<Rightarrow> string \<Rightarrow> string \<Rightarrow> string \<Rightarrow> int \<Rightarrow> abort + MsgTx" where
  "spendTx L a k t v =
     (case getArgs L a k t v of
        Inl e \<Rightarrow> Inl e
      | Inr reqArgs \<Rightarrow>
          (case lookupTxid L (txid reqArgs) of
             Inl e \<Rightarrow> Inl e
           | Inr rawFundingTx \<Rightarrow>
               (case getFundingParams L rawFundingTx (vout reqArgs) of
                  Inl e \<Rightarrow> Inl e
                | Inr (oldTxOut, outpoint) \<Rightarrow>
                    (case buildTx L outpoint (OutValue oldTxOut) (toAddress reqArgs) of
                       Inl e \<Rightarrow> Inl e
                     | Inr tx \<Rightarrow> signTx L tx (privKey reqArgs) (PkScript oldTxOut)))))"

definition spendMain ::
  "('addr, 'priv, 'aux) lib \<Rightarrow> string \<Rightarrow> string \<Rightarrow> string \<Rightarrow> int \<Rightarrow> abort + string" where
  "spendMain L a k t v =
     (case spendTx L a k t v of Inl e \<Rightarrow> Inl e | Inr tx \<Rightarrow> Inr (dumpHex L tx))"

section \<open>A stand-in for the libraries\<close>

text \<open>
  To run the model on concrete inputs the library record is filled with small
  executable functions.  \<open>fromHex\<close> follows \<open>encoding/hex.DecodeString\<close>: two hex digits
  per byte, an error on an odd length or on any other character.  \<open>shaHashFromStr\<close>
  follows \<open>btcwire.NewShaHashFromStr\<close>: at most 64 hex digits, decoded, byte-reversed
  and padded to 32 bytes, and \<open>nil\<close> with an error otherwise.  Keys and addresses are
  carried as their bytes and their string, scripts and signatures are tagged copies of
  their inputs, and the lookup answers every request with the same reply.
\<close>

definition hexVal :: "char \<Rightarrow> nat option" where
  "hexVal c =
     (let n = (of_char c :: nat) in
      if 48 \<le> n \<and> n \<le> 57 then Some (n - 48)
      else if 97 \<le> n \<and> n \<le> 102 then Some (n - 87)
      else if 65 \<le> n \<and> n \<le> 70 then Some (n - 55)
      else None)"

fun fromHex :: "string \<Rightarrow> go_error + bytes" where
  "fromHex [] = Inr []"
| "fromHex [c] = Inl ''encoding/hex: odd length hex string''"
| "fromHex (c # d # cs) =
     (case (hexVal c, hexVal d) of
        (Some h, Some l) \<Rightarrow>
          (case fromHex cs of
             Inl e \<Rightarrow> Inl e
           | Inr bs \<Rightarrow> Inr (of_nat (16 * h + l) # bs))
      | _ \<Rightarrow> Inl ''encoding/hex: invalid byte'')"

definition shaHashFromStr :: "string \<Rightarrow> ShaHash option \<times> go_error option" where
  "shaHashFromStr s =
     (if 64 < length s then (None, Some ''max hash string length is 64 bytes'')
      else case fromHex (if even (length s) then s else CHR ''0'' # s) of
             Inl e \<Rightarrow> (None, Some e)
           | Inr bs \<Rightarrow> (Some (rev bs @ replicate (32 - length bs) 0), None))"

definition stubLib :: "blockChainInfoTx \<Rightarrow> (string, bytes, unit) lib" where
  "stubLib reply =
     \<lparr>DecodeString = fromHex,
      PrivKeyFromBytes = (\<lambda>b. (b, ())),
      DecodeAddress = (\<lambda>s. if s = [] then Inl ''decoded address is of unknown format'' else Inr s),
      NewShaHashFromStr = shaHashFromStr,
      ShaHashString = (\<lambda>h. ''hash''),
      httpGet = (\<lambda>url. Inr (Inr [])),
      jsonUnmarshal = (\<lambda>b. Inr reply),
      TxVersion = 1,
      MaxTxInSequenceNum = 0xffffffff,
      PayToAddrScript = (\<lambda>a. Inr (map of_char a)),
      SigHashAll = 1,
      SignatureScriptLib = (\<lambda>tx idx sub ht priv c. Inr (ht # priv)),
      Serialize = (\<lambda>tx. []),
      EncodeToString = (\<lambda>b. [])\<rparr>"

definition reply0 :: blockChainInfoTx where
  "reply0 = \<lparr>Ver = 1, Hash = ''bb'', Outputs = [\<lparr>Value = 50000, ScriptHex = ''76a9''\<rparr>]\<rparr>"

section \<open>keypair.go\<close>

text \<open>
  The calls of \<open>keypair.go\<close> into btcec and btcutil are the fields of \<open>keylib\<close>.
  \<open>NewPrivateKey\<close> draws from the system's random source, which is its argument here.
\<close>

record ('pub, 'priv, 'net, 'pkh, 'rnd) keylib =
  NewPrivateKey :: "'rnd \<Rightarrow> go_error + 'priv"
  PubKey :: "'priv \<Rightarrow> 'pub"
  SerializeCompressed :: "'pub \<Rightarrow> bytes"
  Hash160 :: "bytes \<Rightarrow> bytes"
  MainNetParams :: 'net
  NewAddressPubKeyHash :: "bytes \<Rightarrow> 'net \<Rightarrow> go_error + 'pkh"
  AddressString :: "'pkh \<Rightarrow> string"

text \<open>\<open>generateKeyPair\<close> (lines 20-31).\<close>

definition generateKeyPair ::
  "('pub, 'priv, 'net, 'pkh, 'rnd) keylib \<Rightarrow> 'rnd \<Rightarrow> abort + ('pub \<times> 'priv)" where
  "generateKeyPair K rnd =
     (case NewPrivateKey K rnd of
        Inl err \<Rightarrow> Inl (Fatal err)
      | Inr priv \<Rightarrow> Inr (PubKey K priv, priv))"

text \<open>\<open>generateAddr\<close> (lines 36-51).\<close>

definition generateAddr ::
  "('pub, 'priv, 'net, 'pkh, 'rnd) keylib \<Rightarrow> 'pub \<Rightarrow> abort + 'pkh" where
  "generateAddr K pub =
     (let net = MainNetParams K;
          b = Hash160 K (SerializeCompressed K pub)
      in case NewAddressPubKeyHash K b net of
           Inl err \<Rightarrow> Inl (Fatal err)
         | Inr addr \<Rightarrow> Inr addr)"

text \<open>
  The address line of \<open>main\<close> of \<open>keypair.go\<close> (lines 66-69): \<open>addr.String()\<close> of the
  address that \<open>generateAddr\<close> returns.
\<close>

definition addressOf ::
  "('pub, 'priv, 'net, 'pkh, 'rnd) keylib \<Rightarrow> 'pub \<Rightarrow> abort + string" where
  "addressOf K pub =
     (case generateAddr K pub of Inl e \<Rightarrow> Inl e | Inr addr \<Rightarrow> Inr (AddressString K addr))"

section \<open>The library operations as the specification describes them\<close>

text \<open>
  The address codec, the script engine and the signer are btcsuite code, outside the
  repository.  What follows is their description in sections 3 and 4 of the
  specification, over primitives that stay parameters: the two hash functions, the
  base58 encoding, the wire serializer, the drawing of a private scalar, scalar
  multiplication of the generator, ECDSA signing (with the randomness it may draw as
  an argument), the DER encoding of a signature, and the uncompressed key format.
  A public key is a curve point.
\<close>

record PublicKey =
  X :: nat
  Y :: nat

record ('priv, 'sig, 'rnd) prims =
  sha256 :: "bytes \<Rightarrow> bytes"
  ripemd160 :: "bytes \<Rightarrow> bytes"
  base58 :: "bytes \<Rightarrow> string"
  wireSerialize :: "MsgTx \<Rightarrow> bytes"
  randomScalar :: "'rnd \<Rightarrow> go_error + 'priv"
  pubKeyOf :: "'priv \<Rightarrow> PublicKey"
  ecdsaSign :: "'priv \<Rightarrow> bytes \<Rightarrow> 'rnd \<Rightarrow> go_error + 'sig"
  derEncode :: "'sig \<Rightarrow> bytes"
  serializeUncompressed :: "PublicKey \<Rightarrow> bytes"

text \<open>The \<open>n\<close> low bytes of a number, most significant first.\<close>

fun bigEndian :: "nat \<Rightarrow> nat \<Rightarrow> bytes" where
  "bigEndian 0 x = []"
| "bigEndian (Suc n) x = bigEndian n (x div 256) @ [of_nat x]"

text \<open>
  Modelled from the spec: \<open>PublicKey.SerializeCompressed\<close> of btcec is not in the
  repository.  Section 4.2: the compressed form is 33 bytes, a parity byte and the
  x-coordinate; the parity byte is 2 for an even and 3 for an odd y-coordinate.
\<close>

definition serializeCompressed :: "PublicKey \<Rightarrow> bytes" where
  "serializeCompressed pub = (if even (Y pub) then 2 else 3) # bigEndian 32 (X pub)"

text \<open>
  Modelled from the spec: \<open>btcutil.Hash160\<close> is not in the repository.  Section 3:
  \<open>hash160 = RIPEMD160(SHA256(pubkey_bytes))\<close>.
\<close>

definition hash160Spec :: "('priv, 'sig, 'rnd) prims \<Rightarrow> bytes \<Rightarrow> bytes" where
  "hash160Spec P b = ripemd160 P (sha256 P b)"

text \<open>
  Modelled from the spec: \<open>btcutil.AddressPubKeyHash\<close> and its constructor
  \<open>NewAddressPubKeyHash\<close> are not in the repository.  Sections 3, 4.2 and 8: an address
  is a fixed-length identifier, a hash160 (of 20 bytes) together with the version byte
  of its network; building one fails only when that invariant is violated.
\<close>

record AddressPubKeyHash =
  hash160 :: bytes
  netID :: byte

definition newAddressPubKeyHash :: "bytes \<Rightarrow> byte \<Rightarrow> go_error + AddressPubKeyHash" where
  "newAddressPubKeyHash pkHash net =
     (if length pkHash = 20 then Inr \<lparr>hash160 = pkHash, netID = net\<rparr>
      else Inl ''pkHash must be 20 bytes'')"

text \<open>
  Modelled from the spec: the checksum encoding behind \<open>AddressPubKeyHash.String\<close> is
  not in the repository.  Section 4.2: the checksum is the first 4 bytes of the double
  SHA-256 of the prefixed payload.
\<close>

definition checksum :: "('priv, 'sig, 'rnd) prims \<Rightarrow> bytes \<Rightarrow> bytes" where
  "checksum P payload = take 4 (sha256 P (sha256 P payload))"

text \<open>
  Modelled from the spec: \<open>AddressPubKeyHash.String\<close> is not in the repository.
  Section 4.2: the hash is prefixed with the network version byte, the checksum is
  appended, and the result is base58-encoded.
\<close>

definition encodeAddress :: "('priv, 'sig, 'rnd) prims \<Rightarrow> AddressPubKeyHash \<Rightarrow> string" where
  "encodeAddress P addr =
     (let payload = netID addr # hash160 addr
      in base58 P (payload @ checksum P payload))"

text \<open>
  Modelled from the spec: the library record of \<open>keypair.go\<close> filled with the
  operations above; \<open>btcnet.MainNetParams\<close> is the version byte of the main network.
\<close>

definition specKeyLib ::
  "('priv, 'sig, 'rnd) prims \<Rightarrow> byte \<Rightarrow> (PublicKey, 'priv, byte, AddressPubKeyHash, 'rnd) keylib" where
  "specKeyLib P mainNet =
     \<lparr>NewPrivateKey = randomScalar P,
      PubKey = pubKeyOf P,
      SerializeCompressed = serializeCompressed,
      Hash160 = hash160Spec P,
      MainNetParams = mainNet,
      NewAddressPubKeyHash = newAddressPubKeyHash,
      AddressString = encodeAddress P\<rparr>"

text \<open>
  Modelled from the spec: the data push of the script builder of btcscript is not in
  the repository.  Section 4.3: a data push under 76 bytes is a length-prefix byte
  followed by the raw bytes; longer pushes are not described.
\<close>

definition lengthPrefixed :: "bytes \<Rightarrow> bytes option" where
  "lengthPrefixed d = (if length d < 76 then Some (of_nat (length d) # d) else None)"

text \<open>
  Modelled from the spec: the script assembly inside \<open>btcscript.SignatureScript\<close> is
  not in the repository.  Section 4.3: \<open>signatureScript\<close> is the concatenation of the
  length-prefixed signature (which ends with the sighash-type byte) and the
  length-prefixed public key.
\<close>

definition signatureScript :: "bytes \<Rightarrow> bytes \<Rightarrow> go_error + bytes" where
  "signatureScript sig pk =
     (case lengthPrefixed sig of
        None \<Rightarrow> Inl ''data push of 76 bytes or more''
      | Some s \<Rightarrow>
          (case lengthPrefixed pk of
             None \<Rightarrow> Inl ''data push of 76 bytes or more''
           | Some p \<Rightarrow> Inr (s @ p)))"

text \<open>
  Modelled from the spec: the signature hash of btcscript is not in the repository.
  Section 4.4, step (a): in the copy that is hashed, the script of the target input is
  the subscript and the scripts of all other inputs are empty.
\<close>

fun replaceScripts :: "nat \<Rightarrow> bytes \<Rightarrow> TxIn list \<Rightarrow> TxIn list" where
  "replaceScripts i subscript [] = []"
| "replaceScripts 0 subscript (ti # tis) =
     ti\<lparr>SignatureScript := subscript\<rparr> # map (\<lambda>t. t\<lparr>SignatureScript := []\<rparr>) tis"
| "replaceScripts (Suc i) subscript (ti # tis) =
     ti\<lparr>SignatureScript := []\<rparr> # replaceScripts i subscript tis"

text \<open>
  Modelled from the spec: the signature hash of btcscript is not in the repository.
  Section 4.4, steps (b) to (d): all inputs and outputs are included, the sighash type
  is appended as 4 little-endian bytes, and the bytes are hashed with double SHA-256.
\<close>

definition computeSignatureHash ::
  "('priv, 'sig, 'rnd) prims \<Rightarrow> MsgTx \<Rightarrow> nat \<Rightarrow> bytes \<Rightarrow> byte \<Rightarrow> bytes" where
  "computeSignatureHash P tx inputIndex subscript sighashType =
     (let txCopy = tx\<lparr>TxIns := replaceScripts inputIndex subscript (TxIns tx)\<rparr>
      in sha256 P (sha256 P (wireSerialize P txCopy @ [sighashType, 0, 0, 0])))"

text \<open>
  Modelled from the spec: \<open>btcscript.SignatureScript\<close> is not in the repository.
  Section 4.4: \<open>sign\<close> aborts on a malformed input (no such input, an empty outpoint
  hash, an empty subscript), computes the signature hash, signs it with the private
  key, DER-encodes the signature, appends the sighash-type byte and calls
  \<open>signatureScript\<close> with the public key of the private key, in compressed form when
  the \<open>compress\<close> argument of the library call is set.
\<close>

definition sign ::
  "('priv, 'sig, 'rnd) prims \<Rightarrow> 'rnd \<Rightarrow> MsgTx \<Rightarrow> nat \<Rightarrow> bytes \<Rightarrow> byte \<Rightarrow> 'priv \<Rightarrow> bool
     \<Rightarrow> go_error + bytes" where
  "sign P rnd tx inputIndex subscript sighashType priv compress =
     (if length (TxIns tx) \<le> inputIndex then Inl ''no such input''
      else if OutHash (PreviousOutPoint (TxIns tx ! inputIndex)) = [] then Inl ''empty outpoint hash''
      else if subscript = [] then Inl ''empty subscript''
      else case ecdsaSign P priv (computeSignatureHash P tx inputIndex subscript sighashType) rnd of
             Inl err \<Rightarrow> Inl err
           | Inr sig \<Rightarrow>
               signatureScript (derEncode P sig @ [sighashType])
                 (if compress then serializeCompressed (pubKeyOf P priv)
                  else serializeUncompressed P (pubKeyOf P priv)))"

text \<open>
  Stand-ins for the primitives, to run the definitions above: the public key has the
  scalar of the private key as its first coordinate, the hashes are fixed-length
  functions of the length of their input, and a signature is already its encoding.
\<close>

definition stubPrims :: "(bytes, bytes, unit) prims" where
  "stubPrims =
     \<lparr>sha256 = (\<lambda>b. replicate 32 (of_nat (length b))),
      ripemd160 = (\<lambda>b. replicate 20 (of_nat (length b))),
      base58 = map (\<lambda>b. char_of (unat b)),
      wireSerialize = (\<lambda>tx. concat (map SignatureScript (TxIns tx))),
      randomScalar = (\<lambda>rnd. Inr [1]),
      pubKeyOf = (\<lambda>d. \<lparr>X = foldl (\<lambda>a b. 256 * a + unat b) 0 d, Y = length d\<rparr>),
      ecdsaSign = (\<lambda>d h rnd. Inr (48 # take 4 h)),
      derEncode = (\<lambda>sig. sig),
      serializeUncompressed = (\<lambda>pub. 4 # bigEndian 32 (X pub) @ bigEndian 32 (Y pub))\<rparr>"

definition tx0 :: MsgTx where
  "tx0 = \<lparr>Version = 1,
          TxIns = [\<lparr>PreviousOutPoint = \<lparr>OutHash = [187], Index = 0\<rparr>,
                    SignatureScript = [], Sequence = 0xffffffff\<rparr>],
          TxOuts = [\<lparr>OutValue = 40000, PkScript = [97, 100, 100, 114]\<rparr>],
          LockTime = 0\<rparr>"

section \<open>Command-line arguments\<close>

text \<open>
  When the four flags are present, \<open>getArgs\<close> can only stop on the hex decoding of the
  key or on the decoding of the address.
\<close>

lemma getArgs_present:
  assumes "a \<noteq> []" "k \<noteq> []" "t \<noteq> []" "v \<noteq> - 1"
  shows "getArgs L a k t v =
     (case DecodeString L k of
        Inl err \<Rightarrow> Inl (Fatal err)
      | Inr pkBytes \<Rightarrow>
          (case DecodeAddress L a of
             Inl err \<Rightarrow> Inl (Fatal err)
           | Inr addr \<Rightarrow>
               Inr \<lparr>txid = fst (NewShaHashFromStr L t), vout = word_of_int v,
                    toAddress = addr, privKey = fst (PrivKeyFromBytes L pkBytes)\<rparr>))"
  using assms by (simp add: getArgs_def split: sum.splits prod.splits)

lemma getArgs_usage:
  "a = [] \<or> k = [] \<or> t = [] \<or> v = - 1 \<Longrightarrow> getArgs L a k t v = Inl UsageExit"
  by (simp add: getArgs_def)

lemma stub_DecodeString_01: "DecodeString (stubLib reply) ''01'' = Inr [1]"
  by (simp add: stubLib_def hexVal_def)

lemma stub_DecodeString_zz: "DecodeString (stubLib reply) ''zz'' = Inl ''encoding/hex: invalid byte''"
  by (simp add: stubLib_def hexVal_def)

lemma stub_DecodeAddress: "DecodeAddress (stubLib reply) ''addr'' = Inr ''addr''"
  by (simp add: stubLib_def)



text \<open>
  C9.  \<open>getArgs\<close> never reports an error from parsing the transaction id: whatever the
  conversion \<open>f\<close> returns for the string (also \<open>nil\<close> together with an error), the
  outcome of \<open>getArgs\<close> is the same, except that the \<open>txid\<close> field of the arguments it
  builds is the first component of \<open>f t\<close>; the second component, the error, is unused.
\<close>

theorem getArgs_ignores_txid_error:
  "getArgs (L\<lparr>NewShaHashFromStr := f\<rparr>) a k t v =
     map_sum id (\<lambda>r. r\<lparr>txid := fst (f t)\<rparr>) (getArgs L a k t v)"
  by (simp add: getArgs_def split: sum.splits prod.splits)

theorem getArgs_ignores_txid_error_witness:
  "getArgs ((stubLib reply0)\<lparr>NewShaHashFromStr := (\<lambda>s. (None, Some ''bad hash''))\<rparr>)
       ''addr'' ''01'' ''zz'' 0 =
     Inr \<lparr>txid = None, vout = 0, toAddress = ''addr'', privKey = [1]\<rparr>"
proof -
  have "getArgs (stubLib reply0) ''addr'' ''01'' ''zz'' 0 =
          Inr \<lparr>txid = fst (NewShaHashFromStr (stubLib reply0) ''zz''), vout = 0,
               toAddress = ''addr'', privKey = [1]\<rparr>"
    by (simp add: getArgs_present stub_DecodeString_01 stub_DecodeAddress)
       (simp add: stubLib_def)
  then show ?thesis
    by (simp add: getArgs_ignores_txid_error)
qed

lemma stub_getArgs:
  "getArgs (stubLib reply) ''addr'' ''01'' ''aa'' v =
     (if v = - 1 then Inl UsageExit
      else Inr \<lparr>txid = Some (170 # replicate 31 0), vout = word_of_int v,
                toAddress = ''addr'', privKey = [1]\<rparr>)"
  by (simp add: getArgs_usage getArgs_present stub_DecodeString_01 stub_DecodeAddress)
     (simp add: stubLib_def shaHashFromStr_def hexVal_def)

text \<open>
  C6.  \<open>getArgs\<close> accepts private keys that are not correctly formatted.  The key
  \<open>01\<close> decodes to a single byte, not to 32 bytes, and the key of 64 zero digits
  decodes to 32 zero bytes, the scalar 0, which is outside the range of the curve; in
  both runs \<open>getArgs\<close> returns the arguments, with the key made of those bytes, where the
  claim has it fail with \<open>InvalidKeyFormat\<close>.
\<close>

theorem getArgs_accepts_malformed_key:
  "DecodeString (stubLib reply0) ''01'' = Inr [1] \<and> length [1 :: byte] \<noteq> 32 \<and>
   getArgs (stubLib reply0) ''addr'' ''01'' ''aa'' 0 =
     Inr \<lparr>txid = Some (170 # replicate 31 0), vout = 0, toAddress = ''addr'', privKey = [1]\<rparr> \<and>
   getArgs (stubLib reply0) ''addr''
       ''0000000000000000000000000000000000000000000000000000000000000000'' ''aa'' 0 =
     Inr \<lparr>txid = Some (170 # replicate 31 0), vout = 0, toAddress = ''addr'',
          privKey = [0, 0, 0, 0, 0, 0, 0, 0, 0, 0, 0, 0, 0, 0, 0, 0, 0, 0, 0, 0, 0, 0, 0, 0, 0, 0, 0, 0, 0, 0, 0, 0]\<rparr>"
proof -
  have short: "getArgs (stubLib reply0) ''addr'' ''01'' ''aa'' 0 =
     Inr \<lparr>txid = Some (170 # replicate 31 0), vout = 0, toAddress = ''addr'', privKey = [1]\<rparr>"
    by (simp add: stub_getArgs)
  have dec: "DecodeString (stubLib reply0)
       ''0000000000000000000000000000000000000000000000000000000000000000'' = Inr [0, 0, 0, 0, 0, 0, 0, 0, 0, 0, 0, 0, 0, 0, 0, 0, 0, 0, 0, 0, 0, 0, 0, 0, 0, 0, 0, 0, 0, 0, 0, 0]"
    by (simp add: stubLib_def hexVal_def)
  have zero: "getArgs (stubLib reply0) ''addr''
       ''0000000000000000000000000000000000000000000000000000000000000000'' ''aa'' 0 =
     Inr \<lparr>txid = Some (170 # replicate 31 0), vout = 0, toAddress = ''addr'',
          privKey = [0, 0, 0, 0, 0, 0, 0, 0, 0, 0, 0, 0, 0, 0, 0, 0, 0, 0, 0, 0, 0, 0, 0, 0, 0, 0, 0, 0, 0, 0, 0, 0]\<rparr>"
    by (simp add: getArgs_present dec stub_DecodeAddress)
       (simp add: stubLib_def shaHashFromStr_def hexVal_def)
  from short zero show ?thesis
    by (simp add: stub_DecodeString_01)
qed

section \<open>Building the transaction\<close>

text \<open>
  C1.  \<open>createTxOut\<close> has no check of the funding value against the fee: with a funding
  value of 5000, below the fee of 10000, it returns an output of value \<open>-5000\<close>.
\<close>

theorem createTxOut_below_fee:
  "sint (5000 :: int64) \<le> 10000 \<and>
   map_sum id (\<lambda>out. sint (OutValue out)) (createTxOut (stubLib reply0) 5000 ''addr'') = Inr (- 5000)"
  by (simp add: createTxOut_def NewTxOut_def stubLib_def)

lemma createTxOut_ok:
  "PayToAddrScript L addr = Inr script \<Longrightarrow>
     createTxOut L inCoin addr = Inr \<lparr>OutValue = inCoin - 10000, PkScript = script\<rparr>"
  by (simp add: createTxOut_def NewTxOut_def)

lemma buildTx_ok:
  "PayToAddrScript L addr = Inr script \<Longrightarrow>
   buildTx L outpoint inCoin addr =
     Inr \<lparr>Version = TxVersion L,
          TxIns = [\<lparr>PreviousOutPoint = outpoint, SignatureScript = [], Sequence = MaxTxInSequenceNum L\<rparr>],
          TxOuts = [\<lparr>OutValue = inCoin - 10000, PkScript = script\<rparr>],
          LockTime = 0\<rparr>"
  by (simp add: buildTx_def createTxOut_ok NewMsgTx_def createTxIn_def NewTxIn_def AddTxIn_def AddTxOut_def)

lemma sint_sub_fee:
  assumes "- (2 ^ 63) + 10000 \<le> sint (x :: int64)"
  shows "sint (x - 10000) = sint x - 10000"
proof -
  have "sint x < 2 ^ 63" using sint_lt [of x] by simp
  have "sint (x - 10000) = signed_take_bit 63 (sint x - sint (10000 :: int64))"
    by (simp add: sint_word_ariths)
  also have "\<dots> = signed_take_bit 63 (sint x - 10000)" by simp
  also have "\<dots> = sint x - 10000"
    using assms \<open>sint x < 2 ^ 63\<close> by (intro signed_take_bit_int_eq_self) auto
  finally show ?thesis .
qed

lemma stub_PayToAddrScript: "PayToAddrScript (stubLib reply) ''addr'' = Inr [97, 100, 100, 114]"
  by (simp add: stubLib_def)

text \<open>
  C3.  When the script of the destination address is built, the transaction of
  lines 168-176 has exactly one input, which references the outpoint and has an empty
  signature script, and exactly one output, whose script is the pay-to-address script
  and whose value is the funding value minus the fee of 10000 (\<open>int64\<close> subtraction,
  which is the integer difference unless it underflows); 50000 gives 40000.
\<close>

theorem buildTx_one_in_one_out:
  assumes "PayToAddrScript L addr = Inr script"
  shows "\<exists>tx ti out. buildTx L outpoint fundingValue addr = Inr tx \<and>
           TxIns tx = [ti] \<and> PreviousOutPoint ti = outpoint \<and> SignatureScript ti = [] \<and>
           TxOuts tx = [out] \<and> OutValue out = fundingValue - 10000 \<and> PkScript out = script \<and>
           (- (2 ^ 63) + 10000 \<le> sint fundingValue \<longrightarrow> sint (OutValue out) = sint fundingValue - 10000) \<and>
           (fundingValue = 50000 \<longrightarrow> sint (OutValue out) = 40000)"
proof -
  let ?ti = "\<lparr>PreviousOutPoint = outpoint, SignatureScript = [], Sequence = MaxTxInSequenceNum L\<rparr>"
  let ?out = "\<lparr>OutValue = fundingValue - 10000, PkScript = script\<rparr>"
  let ?tx = "\<lparr>Version = TxVersion L, TxIns = [?ti], TxOuts = [?out], LockTime = 0\<rparr>"
  have b: "buildTx L outpoint fundingValue addr = Inr ?tx"
    using assms by (rule buildTx_ok)
  have s: "- (2 ^ 63) + 10000 \<le> sint fundingValue \<longrightarrow> sint (OutValue ?out) = sint fundingValue - 10000"
    by (simp add: sint_sub_fee)
  have e: "fundingValue = 50000 \<longrightarrow> sint (OutValue ?out) = 40000"
    by simp
  show ?thesis
    apply (rule exI [of _ ?tx], rule exI [of _ ?ti], rule exI [of _ ?out])
    using b s e by simp
qed

theorem buildTx_one_in_one_out_witness:
  "map_sum id (\<lambda>tx. (map PreviousOutPoint (TxIns tx), map SignatureScript (TxIns tx),
                      map (\<lambda>out. sint (OutValue out)) (TxOuts tx), map PkScript (TxOuts tx)))
     (buildTx (stubLib reply0) \<lparr>OutHash = [187], Index = 0\<rparr> 50000 ''addr'')
   = Inr ([\<lparr>OutHash = [187], Index = 0\<rparr>], [[]], [40000], [[97, 100, 100, 114]])"
  using buildTx_one_in_one_out [OF stub_PayToAddrScript, of reply0 "\<lparr>OutHash = [187], Index = 0\<rparr>" 50000]
  by auto

section \<open>The run of \<open>main\<close>\<close>

lemma getFundingParams_out_of_range:
  "length (Outputs rawtx) \<le> unat vout' \<Longrightarrow> getFundingParams L rawtx vout' = Inl IndexOutOfRange"
  by (simp add: getFundingParams_def)

lemma getFundingParams_in_range:
  assumes "unat vout' < length (Outputs rawtx)"
    and "NewShaHashFromStr L (Hash rawtx) = (Some hash, None)"
    and "DecodeString L (ScriptHex (Outputs rawtx ! unat vout')) = Inr subscript"
  shows "getFundingParams L rawtx vout' =
           Inr (\<lparr>OutValue = Value (Outputs rawtx ! unat vout'), PkScript = subscript\<rparr>,
                \<lparr>OutHash = hash, Index = vout'\<rparr>)"
  using assms by (simp add: getFundingParams_def NewTxOut_def NewOutPoint_def)

lemma spendTx_split:
  assumes "spendTx L a k t v = Inr final"
  shows "\<exists>reqArgs rawtx oldTxOut outpoint tx.
           getArgs L a k t v = Inr reqArgs \<and>
           lookupTxid L (txid reqArgs) = Inr rawtx \<and>
           getFundingParams L rawtx (vout reqArgs) = Inr (oldTxOut, outpoint) \<and>
           buildTx L outpoint (OutValue oldTxOut) (toAddress reqArgs) = Inr tx \<and>
           signTx L tx (privKey reqArgs) (PkScript oldTxOut) = Inr final"
  using assms by (auto simp add: spendTx_def split: sum.splits prod.splits)

lemma buildTx_Inr:
  assumes "buildTx L outpoint inCoin addr = Inr tx"
  shows "\<exists>script. PayToAddrScript L addr = Inr script \<and>
           tx = \<lparr>Version = TxVersion L, TxIns = [createTxIn L outpoint],
                 TxOuts = [\<lparr>OutValue = inCoin - 10000, PkScript = script\<rparr>], LockTime = 0\<rparr>"
  using assms
  by (auto simp add: buildTx_def createTxOut_def NewTxOut_def NewMsgTx_def AddTxIn_def AddTxOut_def
           split: sum.splits)

lemma signTx_Inr:
  assumes "signTx L tx privkey pkScript = Inr tx'" and "TxIns tx = [ti]"
  shows "\<exists>sig. generateSig L tx privkey pkScript = Inr sig \<and>
           tx' = tx\<lparr>TxIns := [ti\<lparr>SignatureScript := sig\<rparr>]\<rparr>"
  using assms by (auto simp add: signTx_def split: sum.splits list.splits)

lemma stub_spendTx:
  "spendTx (stubLib reply0) ''addr'' ''01'' ''aa'' 0 =
     Inr \<lparr>Version = 1,
          TxIns = [\<lparr>PreviousOutPoint = \<lparr>OutHash = 187 # replicate 31 0, Index = 0\<rparr>,
                    SignatureScript = [1, 1], Sequence = 0xffffffff\<rparr>],
          TxOuts = [\<lparr>OutValue = 40000, PkScript = [97, 100, 100, 114]\<rparr>],
          LockTime = 0\<rparr>"
  by (simp add: spendTx_def getArgs_present stub_DecodeString_01 stub_DecodeAddress)
     (simp add: stubLib_def shaHashFromStr_def hexVal_def lookupTxid_def reply0_def
        getFundingParams_def NewOutPoint_def NewTxOut_def buildTx_def createTxOut_def
        createTxIn_def NewTxIn_def NewMsgTx_def AddTxIn_def AddTxOut_def signTx_def generateSig_def)

lemma stub_lookupTxid: "lookupTxid (stubLib reply0) (Some h) = Inr reply0"
  by (simp add: lookupTxid_def stubLib_def reply0_def)

text \<open>
  C2 (as stated).  The request is for the transaction id \<open>aa\<close> and the reply carries
  the hash \<open>bb\<close>; the run does not stop, and the signed transaction spends from the
  hash of the reply.
\<close>

theorem spendTx_hash_mismatch_counterexample:
  "fst (NewShaHashFromStr (stubLib reply0) ''aa'') \<noteq>
     fst (NewShaHashFromStr (stubLib reply0) (Hash reply0)) \<and>
   map_sum id (\<lambda>tx. map PreviousOutPoint (TxIns tx))
       (spendTx (stubLib reply0) ''addr'' ''01'' ''aa'' 0) =
     Inr [\<lparr>OutHash = 187 # replicate 31 0, Index = 0\<rparr>]"
  by (simp add: stub_spendTx) (simp add: stubLib_def shaHashFromStr_def hexVal_def reply0_def)

text \<open>
  C2 (amended).  After the arguments are read and the lookup has answered, an output
  index that is not below the number of outputs of the reply stops the run, by the
  panic of the slice access in \<open>getFundingParams\<close>; for an index within bounds the
  hash of the reply is parsed but never compared with the requested id, and the run
  goes on to build and sign a transaction whose outpoint is made of the hash of the
  reply and the requested index.
\<close>

theorem spendTx_no_reply_validation:
  assumes "getArgs L a k t v = Inr reqArgs" and "lookupTxid L (txid reqArgs) = Inr rawtx"
  shows "(length (Outputs rawtx) \<le> unat (vout reqArgs) \<longrightarrow>
            spendTx L a k t v = Inl IndexOutOfRange) \<and>
         (\<forall>hash subscript.
            unat (vout reqArgs) < length (Outputs rawtx) \<longrightarrow>
            NewShaHashFromStr L (Hash rawtx) = (Some hash, None) \<longrightarrow>
            DecodeString L (ScriptHex (Outputs rawtx ! unat (vout reqArgs))) = Inr subscript \<longrightarrow>
            spendTx L a k t v =
              (case buildTx L \<lparr>OutHash = hash, Index = vout reqArgs\<rparr>
                      (Value (Outputs rawtx ! unat (vout reqArgs))) (toAddress reqArgs) of
                 Inl e \<Rightarrow> Inl e
               | Inr tx \<Rightarrow> signTx L tx (privKey reqArgs) subscript))"
  using assms
  by (simp add: spendTx_def getFundingParams_out_of_range getFundingParams_in_range
        split: sum.splits)

theorem spendTx_no_reply_validation_witness:
  "spendTx (stubLib reply0) ''addr'' ''01'' ''aa'' 1 = Inl IndexOutOfRange \<and>
   spendTx (stubLib reply0) ''addr'' ''01'' ''aa'' 0 =
     (case buildTx (stubLib reply0) \<lparr>OutHash = 187 # replicate 31 0, Index = 0\<rparr> 50000 ''addr'' of
        Inl e \<Rightarrow> Inl e
      | Inr tx \<Rightarrow> signTx (stubLib reply0) tx [1] [118, 169])"
proof -
  have a1: "getArgs (stubLib reply0) ''addr'' ''01'' ''aa'' 1 =
              Inr \<lparr>txid = Some (170 # replicate 31 0), vout = 1, toAddress = ''addr'', privKey = [1]\<rparr>"
    by (simp add: stub_getArgs)
  have a0: "getArgs (stubLib reply0) ''addr'' ''01'' ''aa'' 0 =
              Inr \<lparr>txid = Some (170 # replicate 31 0), vout = 0, toAddress = ''addr'', privKey = [1]\<rparr>"
    by (simp add: stub_getArgs)
  have h: "NewShaHashFromStr (stubLib reply0) (Hash reply0) = (Some (187 # replicate 31 0), None)"
    by (simp add: stubLib_def shaHashFromStr_def hexVal_def reply0_def)
  have d: "DecodeString (stubLib reply0) (ScriptHex (Outputs reply0 ! 0)) = Inr [118, 169]"
    by (simp add: stubLib_def hexVal_def reply0_def)
  have len: "length (Outputs reply0) = 1" and val: "Value (Outputs reply0 ! 0) = 50000"
    by (simp_all add: reply0_def)
  from spendTx_no_reply_validation [OF a1, of reply0] len
  have one: "spendTx (stubLib reply0) ''addr'' ''01'' ''aa'' 1 = Inl IndexOutOfRange"
    by (simp add: stub_lookupTxid)
  from spendTx_no_reply_validation [OF a0, of reply0] len h d val
  have two: "spendTx (stubLib reply0) ''addr'' ''01'' ''aa'' 0 =
     (case buildTx (stubLib reply0) \<lparr>OutHash = 187 # replicate 31 0, Index = 0\<rparr> 50000 ''addr'' of
        Inl e \<Rightarrow> Inl e
      | Inr tx \<Rightarrow> signTx (stubLib reply0) tx [1] [118, 169])"
    by (simp add: stub_lookupTxid split: sum.splits)
  from one two show ?thesis by simp
qed

text \<open>
  C5.  In every run that ends with a signed transaction, the transaction given to
  \<open>generateSig\<close> is the one built by lines 168-176, whose single input still has the
  empty signature script it was created with; the final transaction is that
  transaction with the signature script of the input replaced by the signature, so the
  version, the lock time, the outputs, and the outpoint and sequence number of the input
  are those the signature was computed over.
\<close>

theorem signing_is_terminal:
  assumes "spendTx L a k t v = Inr final"
  shows "\<exists>reqArgs rawtx oldTxOut outpoint tx sig.
           getArgs L a k t v = Inr reqArgs \<and>
           getFundingParams L rawtx (vout reqArgs) = Inr (oldTxOut, outpoint) \<and>
           buildTx L outpoint (OutValue oldTxOut) (toAddress reqArgs) = Inr tx \<and>
           TxIns tx = [createTxIn L outpoint] \<and>
           SignatureScript (createTxIn L outpoint) = [] \<and>
           generateSig L tx (privKey reqArgs) (PkScript oldTxOut) = Inr sig \<and>
           final = tx\<lparr>TxIns := [(createTxIn L outpoint)\<lparr>SignatureScript := sig\<rparr>]\<rparr> \<and>
           Version final = Version tx \<and> LockTime final = LockTime tx \<and>
           TxOuts final = TxOuts tx \<and>
           map PreviousOutPoint (TxIns final) = map PreviousOutPoint (TxIns tx) \<and>
           map Sequence (TxIns final) = map Sequence (TxIns tx)"
proof -
  from spendTx_split [OF assms] obtain reqArgs rawtx oldTxOut outpoint tx where
    a: "getArgs L a k t v = Inr reqArgs" and
    l: "lookupTxid L (txid reqArgs) = Inr rawtx" and
    p: "getFundingParams L rawtx (vout reqArgs) = Inr (oldTxOut, outpoint)" and
    b: "buildTx L outpoint (OutValue oldTxOut) (toAddress reqArgs) = Inr tx" and
    s: "signTx L tx (privKey reqArgs) (PkScript oldTxOut) = Inr final"
    by blast
  from buildTx_Inr [OF b] have ins: "TxIns tx = [createTxIn L outpoint]"
    by auto
  have empty: "SignatureScript (createTxIn L outpoint) = []"
    by (simp add: createTxIn_def NewTxIn_def)
  from signTx_Inr [OF s ins] obtain sig where
    g: "generateSig L tx (privKey reqArgs) (PkScript oldTxOut) = Inr sig" and
    f: "final = tx\<lparr>TxIns := [(createTxIn L outpoint)\<lparr>SignatureScript := sig\<rparr>]\<rparr>"
    by blast
  have frame: "Version final = Version tx \<and> LockTime final = LockTime tx \<and>
           TxOuts final = TxOuts tx \<and>
           map PreviousOutPoint (TxIns final) = map PreviousOutPoint (TxIns tx) \<and>
           map Sequence (TxIns final) = map Sequence (TxIns tx)"
    using f ins by simp
  from a p b ins empty g f frame show ?thesis by blast
qed

theorem signing_is_terminal_witness:
  "\<exists>reqArgs rawtx oldTxOut outpoint tx sig.
     getArgs (stubLib reply0) ''addr'' ''01'' ''aa'' 0 = Inr reqArgs \<and>
     getFundingParams (stubLib reply0) rawtx (vout reqArgs) = Inr (oldTxOut, outpoint) \<and>
     buildTx (stubLib reply0) outpoint (OutValue oldTxOut) (toAddress reqArgs) = Inr tx \<and>
     TxIns tx = [createTxIn (stubLib reply0) outpoint] \<and>
     SignatureScript (createTxIn (stubLib reply0) outpoint) = [] \<and>
     generateSig (stubLib reply0) tx (privKey reqArgs) (PkScript oldTxOut) = Inr sig \<and>
     \<lparr>Version = 1,
      TxIns = [\<lparr>PreviousOutPoint = \<lparr>OutHash = 187 # replicate 31 0, Index = 0\<rparr>,
                SignatureScript = [1, 1], Sequence = 0xffffffff\<rparr>],
      TxOuts = [\<lparr>OutValue = 40000, PkScript = [97, 100, 100, 114]\<rparr>],
      LockTime = 0\<rparr>
       = tx\<lparr>TxIns := [(createTxIn (stubLib reply0) outpoint)\<lparr>SignatureScript := sig\<rparr>]\<rparr>"
  using signing_is_terminal [OF stub_spendTx] by blast

section \<open>The address of a public key\<close>

lemma length_bigEndian: "length (bigEndian n x) = n"
  by (induction n x rule: bigEndian.induct) simp_all

lemma length_serializeCompressed: "length (serializeCompressed pub) = 33"
  by (simp add: serializeCompressed_def length_bigEndian)

text \<open>
  C7.  With the library operations as the specification describes them,
  \<open>generateAddr\<close> serializes the key in compressed form, which is 33 bytes long,
  applies SHA-256 and then RIPEMD-160 to those bytes, and tags the hash with the
  version byte of the main network; the address string that \<open>main\<close> prints is the
  base58 encoding of the version byte, the hash and the first 4 bytes of the double
  SHA-256 of the version byte and the hash.  The hypothesis is that RIPEMD-160 returns
  20 bytes, which the constructor of the address checks.
\<close>

theorem generateAddr_pipeline:
  assumes "length (ripemd160 P (sha256 P (serializeCompressed pub))) = 20"
  shows "length (serializeCompressed pub) = 33 \<and>
         generateAddr (specKeyLib P mainNet) pub =
           Inr \<lparr>hash160 = ripemd160 P (sha256 P (serializeCompressed pub)), netID = mainNet\<rparr> \<and>
         addressOf (specKeyLib P mainNet) pub =
           Inr (base58 P
                 ((mainNet # ripemd160 P (sha256 P (serializeCompressed pub))) @
                  take 4 (sha256 P (sha256 P (mainNet # ripemd160 P (sha256 P (serializeCompressed pub)))))))"
proof -
  have g: "generateAddr (specKeyLib P mainNet) pub =
             Inr \<lparr>hash160 = ripemd160 P (sha256 P (serializeCompressed pub)), netID = mainNet\<rparr>"
    using assms
    by (simp add: generateAddr_def specKeyLib_def hash160Spec_def newAddressPubKeyHash_def)
  have s: "AddressString (specKeyLib P mainNet) = encodeAddress P"
    by (simp add: specKeyLib_def)
  show ?thesis
    by (simp add: length_serializeCompressed g addressOf_def s encodeAddress_def checksum_def)
qed

theorem generateAddr_pipeline_witness:
  "length (serializeCompressed \<lparr>X = 1, Y = 2\<rparr>) = 33 \<and>
   generateAddr (specKeyLib stubPrims 0) \<lparr>X = 1, Y = 2\<rparr> =
     Inr \<lparr>hash160 = replicate 20 32, netID = 0\<rparr> \<and>
   addressOf (specKeyLib stubPrims 0) \<lparr>X = 1, Y = 2\<rparr> =
     Inr (map (\<lambda>b. char_of (unat b)) ((0 # replicate 20 32) @ replicate 4 (32 :: byte)))"
proof -
  have h: "length (ripemd160 stubPrims (sha256 stubPrims (serializeCompressed \<lparr>X = 1, Y = 2\<rparr>))) = 20"
    by (simp add: stubPrims_def)
  from generateAddr_pipeline [OF h, of 0] show ?thesis
    by (simp add: stubPrims_def length_serializeCompressed)
qed

section \<open>The signature script\<close>

lemma lengthPrefixed_Some:
  "lengthPrefixed d = Some p \<Longrightarrow> p = of_nat (length d) # d \<and> length d < 76"
  by (simp add: lengthPrefixed_def split: if_splits)

lemma signatureScript_Inr:
  assumes "signatureScript sig pk = Inr script"
  shows "script = (of_nat (length sig) # sig) @ (of_nat (length pk) # pk) \<and>
         length sig < 76 \<and> length pk < 76"
proof -
  from assms obtain s p where
    s: "lengthPrefixed sig = Some s" and p: "lengthPrefixed pk = Some p" and
    r: "script = s @ p"
    by (auto simp add: signatureScript_def split: option.splits)
  from lengthPrefixed_Some [OF s] lengthPrefixed_Some [OF p] r show ?thesis
    by simp
qed

lemma replicate_4: "replicate 4 x = [x, x, x, x]"
  by (simp add: numeral_eq_Suc)

lemma lengthPrefixed_short:
  "length d < 76 \<Longrightarrow> lengthPrefixed d = Some (of_nat (length d) # d)"
  by (simp add: lengthPrefixed_def)

lemma signatureScript_short:
  assumes "length sig < 76" and "length pk < 76"
  shows "signatureScript sig pk = Inr ((of_nat (length sig) # sig) @ (of_nat (length pk) # pk))"
  using assms by (simp add: signatureScript_def lengthPrefixed_short)

lemma sign_well_formed:
  assumes "TxIns tx \<noteq> []" and "OutHash (PreviousOutPoint (TxIns tx ! 0)) \<noteq> []"
    and "subscript \<noteq> []"
    and "ecdsaSign P priv (computeSignatureHash P tx 0 subscript sighashType) rnd = Inr sig"
  shows "sign P rnd tx 0 subscript sighashType priv True =
           signatureScript (derEncode P sig @ [sighashType]) (serializeCompressed (pubKeyOf P priv))"
  using assms by (simp add: sign_def)

lemma generateSig_Inr:
  assumes "generateSig (L\<lparr>SignatureScriptLib := sign P rnd\<rparr>) tx priv scriptPubKey = Inr script"
  shows "\<exists>sig. ecdsaSign P priv (computeSignatureHash P tx 0 scriptPubKey (SigHashAll L)) rnd = Inr sig \<and>
           length (derEncode P sig) + 1 < 76 \<and>
           script = (of_nat (length (derEncode P sig) + 1) # derEncode P sig @ [SigHashAll L]) @
                    (33 # serializeCompressed (pubKeyOf P priv))"
proof -
  from assms have s: "sign P rnd tx 0 scriptPubKey (SigHashAll L) priv True = Inr script"
    by (simp add: generateSig_def split: sum.splits)
  then obtain sig where
    e: "ecdsaSign P priv (computeSignatureHash P tx 0 scriptPubKey (SigHashAll L)) rnd = Inr sig" and
    c: "signatureScript (derEncode P sig @ [SigHashAll L]) (serializeCompressed (pubKeyOf P priv)) = Inr script"
    by (auto simp add: sign_def split: if_splits sum.splits)
  from signatureScript_Inr [OF c]
  have "length (derEncode P sig) + 1 < 76 \<and>
        script = (of_nat (length (derEncode P sig) + 1) # derEncode P sig @ [SigHashAll L]) @
                 (33 # serializeCompressed (pubKeyOf P priv))"
    by (simp add: length_serializeCompressed)
  with e show ?thesis by blast
qed

text \<open>
  C4.  With \<open>SignatureScript\<close> as the specification describes it, signing produces the
  unlocking script: for a transaction that has an input 0 with a non-empty outpoint
  hash, a non-empty funding script, and a signature of the signature hash of input 0
  (in the mode \<open>SigHashAll\<close>) whose DER encoding with the sighash-type byte stays under
  76 bytes, \<open>generateSig\<close> returns the push of the DER-encoded signature followed by the
  sighash-type byte \<open>SigHashAll\<close> (a length byte and those bytes), followed by the push
  of the compressed public key of the signing private key (the length byte 33 and the
  33 bytes).
\<close>

theorem generateSig_script_shape:
  assumes "TxIns tx \<noteq> []" and "OutHash (PreviousOutPoint (TxIns tx ! 0)) \<noteq> []"
    and "scriptPubKey \<noteq> []"
    and "ecdsaSign P priv (computeSignatureHash P tx 0 scriptPubKey (SigHashAll L)) rnd = Inr sig"
    and "length (derEncode P sig) + 1 < 76"
  shows "generateSig (L\<lparr>SignatureScriptLib := sign P rnd\<rparr>) tx priv scriptPubKey =
           Inr ((of_nat (length (derEncode P sig) + 1) # derEncode P sig @ [SigHashAll L]) @
                (33 # serializeCompressed (pubKeyOf P priv)))"
proof -
  have s: "sign P rnd tx 0 scriptPubKey (SigHashAll L) priv True =
             signatureScript (derEncode P sig @ [SigHashAll L])
               (serializeCompressed (pubKeyOf P priv))"
    using assms(1-4) by (rule sign_well_formed)
  have c: "signatureScript (derEncode P sig @ [SigHashAll L])
               (serializeCompressed (pubKeyOf P priv)) =
             Inr ((of_nat (length (derEncode P sig @ [SigHashAll L])) #
                     derEncode P sig @ [SigHashAll L]) @
                  (of_nat (length (serializeCompressed (pubKeyOf P priv))) #
                     serializeCompressed (pubKeyOf P priv)))"
    using assms(5) by (intro signatureScript_short) (simp_all add: length_serializeCompressed)
  show ?thesis
    using s c by (simp add: generateSig_def length_serializeCompressed)
qed

theorem generateSig_script_shape_witness:
  "generateSig ((stubLib reply0)\<lparr>SignatureScriptLib := sign stubPrims ()\<rparr>) tx0 [1] [118, 169] =
     Inr ([6, 48, 32, 32, 32, 32, 1] @ (33 # serializeCompressed (pubKeyOf stubPrims [1])))"
proof -
  have ins: "TxIns tx0 \<noteq> []" and hash: "OutHash (PreviousOutPoint (TxIns tx0 ! 0)) \<noteq> []"
    by (simp_all add: tx0_def)
  have sub: "[118, 169 :: byte] \<noteq> []"
    by simp
  have sig: "ecdsaSign stubPrims [1]
               (computeSignatureHash stubPrims tx0 0 [118, 169] (SigHashAll (stubLib reply0))) () =
             Inr [48, 32, 32, 32, 32]"
    by (simp add: stubPrims_def computeSignatureHash_def replicate_4)
  have len: "length (derEncode stubPrims [48, 32, 32, 32, 32]) + 1 < 76"
    by (simp add: stubPrims_def)
  have "generateSig ((stubLib reply0)\<lparr>SignatureScriptLib := sign stubPrims ()\<rparr>) tx0 [1] [118, 169] =
          Inr ((of_nat (length (derEncode stubPrims [48, 32, 32, 32, 32]) + 1) #
                  derEncode stubPrims [48, 32, 32, 32, 32] @ [SigHashAll (stubLib reply0)]) @
               (33 # serializeCompressed (pubKeyOf stubPrims [1])))"
    by (rule generateSig_script_shape [OF ins hash sub sig len])
  moreover have "derEncode stubPrims [48, 32, 32, 32, 32] = [48, 32, 32, 32, 32]"
    by (simp add: stubPrims_def)
  moreover have "SigHashAll (stubLib reply0) = 1"
    by (simp add: stubLib_def)
  ultimately show ?thesis by simp
qed

end
